theory Spec2Isabelle
  imports Complex_Main "HOL-Library.AList" "HOL-Library.Char_ord" "HOL-Library.List_Lexorder"
begin

section \<open>Storage: user directories and photo files\<close>

text \<open>
  The base directory holds one directory per user; a user directory holds files. A file is
  its name together with its creation time (what \<^verbatim>\<open>os.path.getctime\<close> reads), counted in
  microseconds as an integer. A directory is the list of its entries in the order in which
  \<^verbatim>\<open>os.listdir\<close> enumerates them; a file system never holds two entries of one name in a
  directory, which is the predicate \<open>wf_storage\<close> below. A full path
  \<^verbatim>\<open>os.path.join(base_dir, username, f)\<close> is the pair of the user name and the file name.
\<close>

type_synonym photo_file = "string \<times> int"
type_synonym user_dir = "photo_file list"
type_synonym storage = "(string \<times> user_dir) list"
type_synonym path = "string \<times> string"


text \<open>\<^verbatim>\<open>str.lower\<close> on the ASCII letters, and \<^verbatim>\<open>str.endswith\<close>.\<close>

definition lower_char :: "char \<Rightarrow> char" where
  "lower_char c =
     (if CHR ''A'' \<le> c \<and> c \<le> CHR ''Z'' then char_of (of_char c + (32::nat)) else c)"

definition lower :: "string \<Rightarrow> string" where
  "lower s = map lower_char s"

definition endswith :: "string \<Rightarrow> string \<Rightarrow> bool" where
  "endswith s suf = (length suf \<le> length s \<and> drop (length s - length suf) s = suf)"

definition is_photo_name :: "string \<Rightarrow> bool" where
  "is_photo_name f =
     (endswith (lower f) ''.jpg'' \<or> endswith (lower f) ''.jpeg'' \<or> endswith (lower f) ''.png'')"

definition os_path_exists :: "storage \<Rightarrow> path \<Rightarrow> bool" where
  "os_path_exists fs p =
     (case map_of fs (fst p) of None \<Rightarrow> False | Some d \<Rightarrow> map_of d (snd p) \<noteq> None)"

definition os_remove :: "storage \<Rightarrow> path \<Rightarrow> storage" where
  "os_remove fs p =
     (case map_of fs (fst p) of None \<Rightarrow> fs
      | Some d \<Rightarrow> AList.update (fst p) (AList.delete (snd p) d) fs)"

text \<open>
  \<^verbatim>\<open>cv2.imwrite\<close> creates the file, or overwrites the file of that name; either way the
  file's creation time is the time of the write.
\<close>

definition imwrite :: "storage \<Rightarrow> path \<Rightarrow> int \<Rightarrow> storage" where
  "imwrite fs p t =
     (case map_of fs (fst p) of None \<Rightarrow> fs
      | Some d \<Rightarrow> AList.update (fst p) (AList.update (snd p) t d) fs)"

definition os_makedirs :: "storage \<Rightarrow> string \<Rightarrow> storage" where
  "os_makedirs fs username = AList.update username [] fs"

section \<open>UserManager\<close>

record user_manager =
  base_dir :: storage
  max_photos_per_user :: int
  photo_retention_days :: int
  min_recent_photos_to_keep :: int


definition get_users :: "user_manager \<Rightarrow> string list" where
  "get_users um = map fst (base_dir um)"

definition get_user_photo_files :: "storage \<Rightarrow> string \<Rightarrow> (path \<times> int) list" where
  "get_user_photo_files fs username =
     (case map_of fs username of
        None \<Rightarrow> []
      | Some d \<Rightarrow>
          sort_key snd (map (\<lambda>(f, t). ((username, f), t)) (filter (\<lambda>(f, t). is_photo_name f) d)))"

definition get_user_photo_count :: "storage \<Rightarrow> string \<Rightarrow> nat" where
  "get_user_photo_count fs username = length (get_user_photo_files fs username)"

text \<open>
  \<open>stamp\<close> is the text \<^verbatim>\<open>datetime.now().strftime("%Y%m%d_%H%M%S_%f")\<close> and \<open>t\<close> the
  creation time the file system gives the written file.
\<close>

definition add_photo_to_user :: "storage \<Rightarrow> string \<Rightarrow> string \<Rightarrow> int \<Rightarrow> storage \<times> nat" where
  "add_photo_to_user fs username stamp t =
     (let fs1 = (if map_of fs username = None then os_makedirs fs username else fs);
          photo_path = (username, ''face_'' @ stamp @ ''.jpg'');
          fs2 = imwrite fs1 photo_path t
      in (fs2, get_user_photo_count fs2 username))"

text \<open>
  \<^verbatim>\<open>timedelta(days=n)\<close> in microseconds. Clock readings and creation times are integers on
  one scale, so the conversion \<^verbatim>\<open>datetime.fromtimestamp\<close> is the identity here; the range
  limits of Python's \<^verbatim>\<open>datetime\<close> (years 1 to 9999) and the local time zone are not
  part of the model.
\<close>

definition timedelta_days :: "int \<Rightarrow> int" where
  "timedelta_days n = n * 86400000000"

definition is_older_than_retention :: "user_manager \<Rightarrow> int \<Rightarrow> int \<Rightarrow> bool" where
  "is_older_than_retention um now timestamp =
     (timestamp < now - timedelta_days (photo_retention_days um))"

definition is_not_among_recent_n :: "user_manager \<Rightarrow> int \<Rightarrow> nat \<Rightarrow> bool" where
  "is_not_among_recent_n um current_total_photos i =
     (current_total_photos - 1 - int i \<ge> min_recent_photos_to_keep um)"

definition photos_eligible_for_deletion ::
  "user_manager \<Rightarrow> int \<Rightarrow> (path \<times> int) list \<Rightarrow> path list" where
  "photos_eligible_for_deletion um now user_photos =
     map (\<lambda>(i, (photo_path, timestamp)). photo_path)
       (filter (\<lambda>(i, (photo_path, timestamp)).
                  is_older_than_retention um now timestamp \<and>
                  is_not_among_recent_n um (int (length user_photos)) i)
          (List.enumerate 0 user_photos))"

text \<open>The loop of lines 169 to 173: remove each eligible path that exists, counting down.\<close>

fun remove_eligible :: "path list \<Rightarrow> storage \<times> int \<Rightarrow> storage \<times> int" where
  "remove_eligible [] (fs, current_total_photos) = (fs, current_total_photos)"
| "remove_eligible (photo_path # rest) (fs, current_total_photos) =
     (if os_path_exists fs photo_path
      then remove_eligible rest (os_remove fs photo_path, current_total_photos - 1)
      else remove_eligible rest (fs, current_total_photos))"

text \<open>The loop of lines 180 to 187 over \<^verbatim>\<open>range(num_to_trim)\<close>, with its \<^verbatim>\<open>break\<close>.\<close>

fun trim_loop :: "nat list \<Rightarrow> (path \<times> int) list \<Rightarrow> storage \<Rightarrow> storage" where
  "trim_loop [] user_photos_after_first_pass fs = fs"
| "trim_loop (i # rest) user_photos_after_first_pass fs =
     (if i < length user_photos_after_first_pass
      then (let photo_path_to_remove = fst (user_photos_after_first_pass ! i)
            in trim_loop rest user_photos_after_first_pass
                 (if os_path_exists fs photo_path_to_remove
                  then os_remove fs photo_path_to_remove else fs))
      else fs)"

text \<open>
  The two phases of the retention pass. \<open>age_phase\<close> is lines 146 to 173 (the list is fetched,
  the eligible photos are collected and removed); \<open>ceiling_phase\<close> is lines 176 to 187.
\<close>

definition age_phase :: "user_manager \<Rightarrow> int \<Rightarrow> string \<Rightarrow> storage \<Rightarrow> storage \<times> int" where
  "age_phase um now username fs =
     (let user_photos = get_user_photo_files fs username;
          current_total_photos = int (length user_photos)
      in remove_eligible (photos_eligible_for_deletion um now user_photos)
           (fs, current_total_photos))"

definition ceiling_phase :: "user_manager \<Rightarrow> string \<Rightarrow> storage \<times> int \<Rightarrow> storage" where
  "ceiling_phase um username st =
     (case st of (fs, current_total_photos) \<Rightarrow>
        if current_total_photos > max_photos_per_user um
        then (let user_photos_after_first_pass = get_user_photo_files fs username;
                  num_to_trim = current_total_photos - max_photos_per_user um
              in trim_loop [0..<nat num_to_trim] user_photos_after_first_pass fs)
        else fs)"

text \<open>
  \<open>now\<close> is the \<^verbatim>\<open>datetime.now()\<close> of line 153, in the same integer microseconds as the
  creation times.
\<close>

definition save_recognition_photo_and_manage_retention ::
  "user_manager \<Rightarrow> string \<Rightarrow> string \<Rightarrow> int \<Rightarrow> int \<Rightarrow> user_manager" where
  "save_recognition_photo_and_manage_retention um username stamp t now =
     (let fs1 = fst (add_photo_to_user (base_dir um) username stamp t)
      in um\<lparr>base_dir := ceiling_phase um username (age_phase um now username fs1)\<rparr>)"




section \<open>FaceRecognizer\<close>

text \<open>
  The recognizer keeps the list of known users and the distance threshold; \<open>model_exists\<close> is
  \<^verbatim>\<open>os.path.exists(self.model_path)\<close>. Scores are real numbers. What
  \<^verbatim>\<open>self.face_recognizer.predict\<close> does on a face region is given from outside: it returns a
  label and a distance, or raises. The regions come from the detector, whose smallest region
  is 30 by 30 pixels, so \<^verbatim>\<open>cv2.resize\<close> succeeds on them.
\<close>

record face_recognizer =
  model_exists :: bool
  user_list :: "string list"
  confidence_threshold :: real

datatype prediction = Predicted int real | PredictRaises

text \<open>\<^verbatim>\<open>xs[i]\<close> of Python: a negative index counts from the end; \<open>None\<close> is IndexError.\<close>

definition py_index :: "'a list \<Rightarrow> int \<Rightarrow> 'a option" where
  "py_index xs i =
     (if 0 \<le> i \<and> i < int (length xs) then Some (xs ! nat i)
      else if - int (length xs) \<le> i \<and> i < 0 then Some (xs ! nat (int (length xs) + i))
      else None)"

definition recognize_face :: "face_recognizer \<Rightarrow> prediction \<Rightarrow> string option \<times> real" where
  "recognize_face fr face_roi =
     (if user_list fr = [] \<or> \<not> model_exists fr then (None, 0)
      else case face_roi of
             PredictRaises \<Rightarrow> (None, 0)
           | Predicted label confidence \<Rightarrow>
               if confidence < confidence_threshold fr \<and> label < int (length (user_list fr))
               then (case py_index (user_list fr) label of
                       None \<Rightarrow> (None, 0)
                     | Some username \<Rightarrow> (Some username, confidence))
               else (None, confidence))"

text \<open>
  \<open>process_frame\<close>: one entry per detected face; a face counts as recognized when the
  returned name is truthy (not \<^verbatim>\<open>None\<close> and not the empty string).
\<close>

definition process_frame :: "face_recognizer \<Rightarrow> prediction list \<Rightarrow> (string \<times> real) list" where
  "process_frame fr faces =
     concat (map (\<lambda>face_roi. case recognize_face fr face_roi of
                                 (None, confidence) \<Rightarrow> []
                               | (Some username, confidence) \<Rightarrow>
                                   if username = [] then [] else [(username, confidence)]) faces)"

section \<open>FaceTrainer\<close>

text \<open>
  The library calls of the trainer are parameters: \<open>imread\<close> (\<^verbatim>\<open>cv2.imread\<close>, \<open>None\<close> for a
  file that cannot be loaded), \<open>train_test_split\<close> (scikit-learn's, \<open>None\<close> when it raises),
  \<open>eigen_train\<close> and \<open>eigen_predict\<close> (the OpenCV recognizer's \<^verbatim>\<open>train\<close> and
  \<^verbatim>\<open>predict\<close>, \<open>None\<close> when they raise). A sample is an image with its label.
\<close>

record ('img, 'model) library =
  imread :: "path \<Rightarrow> 'img option"
  train_test_split :: "('img \<times> nat) list \<Rightarrow> (('img \<times> nat) list \<times> ('img \<times> nat) list) option"
  eigen_train :: "('img \<times> nat) list \<Rightarrow> 'model option"
  eigen_predict :: "'model \<Rightarrow> 'img \<Rightarrow> (int \<times> real) option"

text \<open>
  The ways \<open>train\<close> raises: the \<^verbatim>\<open>ValueError\<close> of line 105, and what propagates from
  scikit-learn (the split) and from OpenCV (training and prediction).
\<close>

datatype train_error = ValueError_no_images | SplitError | Cv2Error

definition load_user_images ::
  "('img, 'model) library \<Rightarrow> string \<Rightarrow> nat \<Rightarrow> user_dir \<Rightarrow> ('img \<times> nat) list" where
  "load_user_images lib username label_id d =
     concat (map (\<lambda>(filename, t).
                    if is_photo_name filename
                    then (case imread lib (username, filename) of
                            None \<Rightarrow> []
                          | Some img \<Rightarrow> [(img, label_id)])
                    else []) d)"

definition load_training_data :: "('img, 'model) library \<Rightarrow> storage \<Rightarrow> ('img \<times> nat) list" where
  "load_training_data lib fs =
     concat (map (\<lambda>(label_id, username).
                    load_user_images lib username label_id
                      (case map_of fs username of None \<Rightarrow> [] | Some d \<Rightarrow> d))
               (List.enumerate 0 (sort (map fst fs))))"

text \<open>The evaluation loop of lines 120 to 125; \<open>None\<close> when a prediction raises.\<close>

fun count_correct ::
  "('img, 'model) library \<Rightarrow> 'model \<Rightarrow> ('img \<times> nat) list \<Rightarrow> nat \<Rightarrow> nat option" where
  "count_correct lib m [] correct = Some correct"
| "count_correct lib m ((x, y) # rest) correct =
     (case eigen_predict lib m x of
        None \<Rightarrow> None
      | Some (label, confidence) \<Rightarrow>
          count_correct lib m rest (if label = int y then correct + 1 else correct))"

text \<open>
  \<open>train\<close> with the default \<^verbatim>\<open>test_size\<close>. The second component of the result is the model
  file \<^verbatim>\<open>modeloEigenFaces.xml\<close> after the call: \<open>artifact\<close> is its content before.
\<close>

definition train ::
  "('img, 'model) library \<Rightarrow> storage \<Rightarrow> 'model option \<Rightarrow> (train_error + real) \<times> 'model option" where
  "train lib fs artifact =
     (let faces_data = load_training_data lib fs
      in if length faces_data = 0 then (Inl ValueError_no_images, artifact)
         else case train_test_split lib faces_data of
                None \<Rightarrow> (Inl SplitError, artifact)
              | Some (train_part, test_part) \<Rightarrow>
                  (case eigen_train lib train_part of
                     None \<Rightarrow> (Inl Cv2Error, artifact)
                   | Some m \<Rightarrow>
                       (case count_correct lib m test_part 0 of
                          None \<Rightarrow> (Inl Cv2Error, artifact)
                        | Some correct \<Rightarrow>
                            (let total = length test_part;
                                 accuracy = (if total > 0 then real correct / real total else 0)
                             in (Inr accuracy, Some m)))))"


section \<open>FaceRecognitionApp\<close>

definition MAX_PHOTOS_PER_USER :: int where "MAX_PHOTOS_PER_USER = 100"

text \<open>
  A frame callback handed to the camera: the closure over the user name and the session
  target made by \<open>start_registration\<close>, or the recognition callback. The user name of the
  closure is \<^verbatim>\<open>None\<close> when \<^verbatim>\<open>current_user_registration\<close> is.
\<close>

datatype callback = RegistrationFrame "string option" int | RecognitionFrame

text \<open>
  What the application does to the outside, in order: dialogs and widgets of the GUI, calls
  of the camera manager, the training thread started by \<open>train_model\<close> and the unlock thread.
\<close>

datatype action =
    AskString | AskConfirmation | ShowMessage | UpdateStatus | ShowFrame | UpdateWelcome
  | UpdateUserList "string list" | StartCapture callback | StopCamera
  | TrainModel bool | TryUnlock

record app =
  user_manager :: user_manager
  recognizer :: face_recognizer
  registration_active :: bool
  recognition_active :: bool
  current_user_registration :: "string option"
  is_recording :: bool
  frame_callback :: "callback option"
  actions :: "action list"

text \<open>
  What one call of a handler reads from outside: the operator's answers to the dialogs, the
  faces the detector finds in the frame (each with what the recognizer predicts on it), the
  stamp and creation time of a photo written during the call, the clock of the retention
  pass, whether the main window still exists, whether the capture thread is alive and whether
  the camera initializes.
\<close>

record env =
  ask_string :: "string option"
  ask_existing :: bool
  ask_continue :: bool
  faces :: "prediction list"
  photo_stamp :: string
  photo_ctime :: int
  retention_clock :: int
  winfo_exists :: bool
  thread_alive :: bool
  init_ok :: bool

definition act :: "action \<Rightarrow> app \<Rightarrow> app" where
  "act x a = a\<lparr>actions := actions a @ [x]\<rparr>"


definition stop_camera :: "app \<Rightarrow> app" where
  "stop_camera a = (act StopCamera a)\<lparr>is_recording := False\<rparr>"

definition train_model :: "bool \<Rightarrow> app \<Rightarrow> app" where
  "train_model show_message_box a = act (TrainModel show_message_box) (act UpdateStatus a)"

text \<open>Lines 255 to 263, the same as lines 273 to 281 and 290 to 298: no capture, train.\<close>

definition finish_and_train :: "app \<Rightarrow> app" where
  "finish_and_train a =
     (let a1 = act ShowMessage a;
          a2 = (if is_recording a1 then stop_camera a1 else a1);
          a3 = act UpdateStatus a2;
          a4 = a3\<lparr>current_user_registration := None\<rparr>;
          a5 = train_model True a4
      in act (UpdateUserList (get_users (user_manager a5))) a5)"






definition stop_recognition :: "app \<Rightarrow> app" where
  "stop_recognition a =
     (if recognition_active a
      then act UpdateStatus (stop_camera (a\<lparr>recognition_active := False\<rparr>))
      else a)"

definition process_recognition_frame :: "env \<Rightarrow> app \<Rightarrow> app" where
  "process_recognition_frame e a =
     (if \<not> recognition_active a then a
      else if \<not> winfo_exists e then a
      else
        (let recognized_users = process_frame (recognizer a) (faces e);
             a1 = act ShowFrame a
         in case recognized_users of
              [] \<Rightarrow> act UpdateWelcome (act UpdateStatus a1)
            | (username, confidence) # others \<Rightarrow>
                (let a2 = act UpdateStatus a1;
                     a3 = (if int (get_user_photo_count (base_dir (user_manager a2)) username)
                              < MAX_PHOTOS_PER_USER
                           then (if length (faces e) = 1
                                 then train_model False
                                        (act UpdateStatus
                                           (a2\<lparr>user_manager :=
                                                 save_recognition_photo_and_manage_retention
                                                   (user_manager a2) username (photo_stamp e) (photo_ctime e)
                                                   (retention_clock e)\<rparr>))
                                 else a2)
                           else a2);
                     a4 = act TryUnlock (act UpdateWelcome a3)
                 in stop_recognition a4)))"

text \<open>The frames of a list, delivered to the recognition callback one after the other.\<close>

definition deliver_frames :: "env list \<Rightarrow> app \<Rightarrow> app" where
  "deliver_frames es a = foldl (\<lambda>a' e. process_recognition_frame e a') a es"


section \<open>Storage lemmas\<close>



























lemma add_photo_Some:
  "\<exists>d. map_of (fst (add_photo_to_user fs u stamp t)) u = Some d"
  by (auto simp: add_photo_to_user_def Let_def imwrite_def os_makedirs_def update_conv'
      split: option.splits)


































section \<open>The age-based phase\<close>



section \<open>The retention ceiling\<close>



section \<open>The retention scenarios\<close>






section \<open>Recognition threshold\<close>

lemma py_index_Some_iff:
  "(\<exists>u. py_index xs i = Some u) \<longleftrightarrow> - int (length xs) \<le> i \<and> i < int (length xs)"
  by (auto simp: py_index_def Let_def)

text \<open>
  Claim C7, as the code has it. With known users and a model file, on a face for which the
  prediction is \<open>(label, score)\<close>, \<open>recognize_face\<close> returns a user name exactly when the
  score is strictly below the threshold and the label is an index of the user list (from
  \<open>- length\<close> up to \<open>length - 1\<close>, as Python indexes); the name is then the entry of the list
  at the label and comes with the score; and whenever the score is not below the threshold or
  the label is at least the length of the list, the result is no identity together with the
  score.
\<close>

theorem recognize_face_match_iff:
  assumes "user_list fr \<noteq> []" and "model_exists fr"
  shows "((\<exists>username. recognize_face fr (Predicted label score) = (Some username, score)) \<longleftrightarrow>
           score < confidence_threshold fr \<and>
           - int (length (user_list fr)) \<le> label \<and> label < int (length (user_list fr))) \<and>
         (fst (recognize_face fr (Predicted label score)) \<noteq> None \<longrightarrow>
            recognize_face fr (Predicted label score)
              = (py_index (user_list fr) label, score)) \<and>
         (\<not> (score < confidence_threshold fr \<and> label < int (length (user_list fr))) \<longrightarrow>
            recognize_face fr (Predicted label score) = (None, score))"
  using assms py_index_Some_iff [of "user_list fr" label]
  by (auto simp: recognize_face_def split: option.splits)

text \<open>
  The claim as written (a name is returned if and only if the score is below the threshold)
  fails on a label that is not in the list: one known user, label 1, score 100 below the
  threshold 2000, and no identity is returned.
\<close>

theorem recognize_face_match_counterexample:
  "(100::real) < confidence_threshold
      \<lparr>model_exists = True, user_list = [''alice''], confidence_threshold = 2000\<rparr> \<and>
   recognize_face \<lparr>model_exists = True, user_list = [''alice''], confidence_threshold = 2000\<rparr>
      (Predicted 1 100) = (None, 100)"
  by (simp add: recognize_face_def)

theorem recognize_face_match_iff_witness:
  "recognize_face \<lparr>model_exists = True, user_list = [''alice'', ''bob''], confidence_threshold = 2000\<rparr>
      (Predicted 1 1500) = (Some ''bob'', 1500)"
proof -
  let ?fr = "\<lparr>model_exists = True, user_list = [''alice'', ''bob''], confidence_threshold = 2000\<rparr>"
  have h1: "user_list ?fr \<noteq> []" by simp
  have h2: "model_exists ?fr" by simp
  have "fst (recognize_face ?fr (Predicted 1 1500)) \<noteq> None"
    using recognize_face_match_iff [OF h1 h2, of 1 1500] by auto
  then have "recognize_face ?fr (Predicted 1 1500) = (py_index (user_list ?fr) 1, 1500)"
    using recognize_face_match_iff [OF h1 h2, of 1 1500] by blast
  then show ?thesis by (simp add: py_index_def)
qed

text \<open>
  Claim C10. With an empty user list or no model file, \<open>recognize_face\<close> returns no identity
  and the score 0 whatever the prediction on the face would be (it is not consulted). When the
  predicted label is out of the range of the user list (at least its length, or below minus
  its length, where Python's indexing raises), no identity is returned, whatever the score.
\<close>

theorem recognize_face_no_identity:
  "(user_list fr = [] \<or> \<not> model_exists fr \<longrightarrow> recognize_face fr face_roi = (None, 0)) \<and>
   (label \<ge> int (length (user_list fr)) \<or> label < - int (length (user_list fr)) \<longrightarrow>
      fst (recognize_face fr (Predicted label score)) = None)"
  by (auto simp: recognize_face_def py_index_def Let_def split: option.splits)

theorem recognize_face_no_identity_witness:
  "recognize_face \<lparr>model_exists = False, user_list = [''alice''], confidence_threshold = 2000\<rparr>
      (Predicted 0 10) = (None, 0) \<and>
   fst (recognize_face \<lparr>model_exists = True, user_list = [''alice''], confidence_threshold = 2000\<rparr>
      (Predicted 1 10)) = None"
  using recognize_face_no_identity
          [of "\<lparr>model_exists = False, user_list = [''alice''], confidence_threshold = 2000\<rparr>"
              "Predicted 0 10" 1 10]
        recognize_face_no_identity
          [of "\<lparr>model_exists = True, user_list = [''alice''], confidence_threshold = 2000\<rparr>"
              "Predicted 0 10" 1 10]
  by simp

section \<open>Training\<close>

lemma count_correct_le:
  "count_correct lib m te c0 = Some c \<Longrightarrow> c \<le> c0 + length te"
proof (induction te arbitrary: c0)
  case Nil
  then show ?case by simp
next
  case (Cons xy te)
  obtain x y where xy: "xy = (x, y)" by (cases xy)
  from Cons.prems obtain label confidence where
    p: "eigen_predict lib m x = Some (label, confidence)"
    and r: "count_correct lib m te (if label = int y then c0 + 1 else c0) = Some c"
    by (auto simp: xy split: option.splits)
  from Cons.IH [OF r] show ?case by (simp split: if_splits)
qed

text \<open>
  Claim C9, as the code has it. When no training image is loaded, \<open>train\<close> raises the
  \<^verbatim>\<open>ValueError\<close> of line 105 and the model file is what it was. When images are loaded and
  the split, the training and the predictions on the test part do not raise, \<open>train\<close> writes
  the trained model and returns the share of correct predictions, which lies between 0 and 1
  (0 for an empty test part). When images are loaded and the split raises, \<open>train\<close> raises
  and the model file is what it was; and so it is whenever \<open>train\<close> raises.
\<close>

theorem train_outcomes:
  "(load_training_data lib fs = [] \<longrightarrow>
      train lib fs artifact = (Inl ValueError_no_images, artifact)) \<and>
   (load_training_data lib fs \<noteq> [] \<and>
    train_test_split lib (load_training_data lib fs) = Some (train_part, test_part) \<and>
    eigen_train lib train_part = Some m \<and>
    count_correct lib m test_part 0 = Some correct \<longrightarrow>
      train lib fs artifact
        = (Inr (if test_part = [] then 0 else real correct / real (length test_part)), Some m) \<and>
      0 \<le> (if test_part = [] then 0 else real correct / real (length test_part)) \<and>
      (if test_part = [] then 0 else real correct / real (length test_part)) \<le> 1) \<and>
   (load_training_data lib fs \<noteq> [] \<and>
    train_test_split lib (load_training_data lib fs) = None \<longrightarrow>
      train lib fs artifact = (Inl SplitError, artifact)) \<and>
   (\<forall>e. fst (train lib fs artifact) = Inl e \<longrightarrow> snd (train lib fs artifact) = artifact)"
proof (intro conjI impI allI)
  assume "load_training_data lib fs = []"
  then show "train lib fs artifact = (Inl ValueError_no_images, artifact)"
    by (simp add: train_def)
next
  assume h: "load_training_data lib fs \<noteq> [] \<and>
    train_test_split lib (load_training_data lib fs) = Some (train_part, test_part) \<and>
    eigen_train lib train_part = Some m \<and>
    count_correct lib m test_part 0 = Some correct"
  then show "train lib fs artifact
        = (Inr (if test_part = [] then 0 else real correct / real (length test_part)), Some m)"
    by (simp add: train_def Let_def)
  show "0 \<le> (if test_part = [] then 0 else real correct / real (length test_part))" by simp
  have "correct \<le> length test_part" using count_correct_le [of lib m test_part 0 correct] h by simp
  then show "(if test_part = [] then 0 else real correct / real (length test_part)) \<le> 1"
    by (simp add: divide_le_eq_1)
next
  assume "load_training_data lib fs \<noteq> [] \<and>
    train_test_split lib (load_training_data lib fs) = None"
  then show "train lib fs artifact = (Inl SplitError, artifact)"
    by (simp add: train_def Let_def)
next
  fix e assume "fst (train lib fs artifact) = Inl e"
  then show "snd (train lib fs artifact) = artifact"
    by (auto simp: train_def Let_def split: option.splits if_splits prod.splits)
qed

text \<open>
  The claim as written (one image is enough for a model and an accuracy) fails with exactly
  one image: scikit-learn's \<^verbatim>\<open>train_test_split\<close> with \<^verbatim>\<open>test_size=0.2\<close> puts the
  one sample in the test part and raises because the training part would be empty, so
  \<open>train\<close> raises and writes nothing.
\<close>

theorem train_outcomes_counterexample:
  "length (load_training_data
      \<lparr>imread = (\<lambda>p. Some (0::nat)),
        train_test_split = (\<lambda>xs. if length xs < 2 then None else Some (tl xs, [hd xs])),
        eigen_train = (\<lambda>xs. Some ()), eigen_predict = (\<lambda>m x. Some (0, 0))\<rparr>
      [(''alice'', [(''a.jpg'', 0)])]) = 1 \<and>
   train
      \<lparr>imread = (\<lambda>p. Some (0::nat)),
        train_test_split = (\<lambda>xs. if length xs < 2 then None else Some (tl xs, [hd xs])),
        eigen_train = (\<lambda>xs. Some ()), eigen_predict = (\<lambda>m x. Some (0, 0))\<rparr>
      [(''alice'', [(''a.jpg'', 0)])] None = (Inl SplitError, None)"
proof -
  have ph: "is_photo_name ''a.jpg''" by code_simp
  have l: "load_training_data
      \<lparr>imread = (\<lambda>p. Some (0::nat)),
        train_test_split = (\<lambda>xs. if length xs < 2 then None else Some (tl xs, [hd xs])),
        eigen_train = (\<lambda>xs. Some ()), eigen_predict = (\<lambda>m x. Some (0, 0))\<rparr>
      [(''alice'', [(''a.jpg'', 0)])] = [(0, 0)]"
    by (simp add: load_training_data_def load_user_images_def ph)
  show ?thesis unfolding train_def l by simp
qed

theorem train_outcomes_witness:
  "train
      \<lparr>imread = (\<lambda>p. Some (0::nat)),
        train_test_split = (\<lambda>xs. if length xs < 2 then None else Some (tl xs, [hd xs])),
        eigen_train = (\<lambda>xs. Some ()), eigen_predict = (\<lambda>m x. Some (0, 0))\<rparr>
      [(''alice'', [(''a.jpg'', 0), (''b.jpg'', 1)])] None = (Inr 1, Some ())"
proof -
  let ?lib = "\<lparr>imread = (\<lambda>p. Some (0::nat)),
        train_test_split = (\<lambda>xs. if length xs < 2 then None else Some (tl xs, [hd xs])),
        eigen_train = (\<lambda>xs. Some ()), eigen_predict = (\<lambda>m x. Some (0::int, 0::real))\<rparr>"
  let ?fs = "[(''alice'', [(''a.jpg'', 0::int), (''b.jpg'', 1)])]"
  have ph: "is_photo_name ''a.jpg''" "is_photo_name ''b.jpg''" by code_simp+
  have l: "load_training_data ?lib ?fs = [(0, 0), (0, 0)]"
    by (simp add: load_training_data_def load_user_images_def ph)
  have h: "load_training_data ?lib ?fs \<noteq> [] \<and>
      train_test_split ?lib (load_training_data ?lib ?fs) = Some ([(0, 0)], [(0, 0)]) \<and>
      eigen_train ?lib [(0, 0)] = Some () \<and>
      count_correct ?lib () [(0, 0)] 0 = Some 1"
    unfolding l by simp
  from train_outcomes [of ?lib ?fs None "[(0, 0)]" "[(0, 0)]" "()" 1] h
  have "train ?lib ?fs None = (Inr (if [(0::nat, 0::nat)] = [] then 0 else real 1 / real (length [(0::nat, 0::nat)])), Some ())"
    by blast
  then show ?thesis by simp
qed

section \<open>Recognition callback\<close>

lemma actions_act: "actions (act x a) = actions a @ [x]"
  by (simp add: act_def)

lemma act_fields:
  "recognition_active (act x a) = recognition_active a"
  "registration_active (act x a) = registration_active a"
  "is_recording (act x a) = is_recording a"
  "user_manager (act x a) = user_manager a"
  "current_user_registration (act x a) = current_user_registration a"
  "frame_callback (act x a) = frame_callback a"
  "recognizer (act x a) = recognizer a"
  by (simp_all add: act_def)

lemma train_model_fields:
  "actions (train_model b a) = actions a @ [UpdateStatus, TrainModel b]"
  "recognition_active (train_model b a) = recognition_active a"
  "registration_active (train_model b a) = registration_active a"
  "is_recording (train_model b a) = is_recording a"
  "user_manager (train_model b a) = user_manager a"
  "current_user_registration (train_model b a) = current_user_registration a"
  by (simp_all add: train_model_def actions_act act_fields)

lemma stop_camera_fields:
  "actions (stop_camera a) = actions a @ [StopCamera]"
  "recognition_active (stop_camera a) = recognition_active a"
  "registration_active (stop_camera a) = registration_active a"
  "is_recording (stop_camera a) = False"
  "user_manager (stop_camera a) = user_manager a"
  "current_user_registration (stop_camera a) = current_user_registration a"
  by (simp_all add: stop_camera_def actions_act act_fields)

lemma recognition_frame_inactive:
  "\<not> recognition_active a \<Longrightarrow> process_recognition_frame e a = a"
  by (simp add: process_recognition_frame_def)

lemma deliver_frames_inactive:
  "\<not> recognition_active a \<Longrightarrow> deliver_frames es a = a"
  unfolding deliver_frames_def
  by (induction es) (simp_all add: recognition_frame_inactive)

lemma recognition_frame_match:
  assumes "recognition_active a" and "winfo_exists e"
    and "process_frame (recognizer a) (faces e) \<noteq> []"
  shows "\<not> recognition_active (process_recognition_frame e a)"
    and "\<not> is_recording (process_recognition_frame e a)"
    and "count_list (actions (process_recognition_frame e a)) TryUnlock
           = count_list (actions a) TryUnlock + 1"
proof -
  obtain username confidence others where
    r: "process_frame (recognizer a) (faces e) = (username, confidence) # others"
    using assms(3) by (cases "process_frame (recognizer a) (faces e)") auto
  show "\<not> recognition_active (process_recognition_frame e a)"
    using assms(1,2)
    by (simp add: process_recognition_frame_def r Let_def stop_recognition_def act_fields
        train_model_fields stop_camera_fields)
  show "\<not> is_recording (process_recognition_frame e a)"
    using assms(1,2)
    by (simp add: process_recognition_frame_def r Let_def stop_recognition_def act_fields
        train_model_fields stop_camera_fields)
  show "count_list (actions (process_recognition_frame e a)) TryUnlock
           = count_list (actions a) TryUnlock + 1"
    using assms(1,2)
    by (simp add: process_recognition_frame_def r Let_def stop_recognition_def act_fields
        train_model_fields stop_camera_fields actions_act)
qed

lemma recognition_frame_no_match:
  assumes "recognition_active a" and "\<not> winfo_exists e \<or> process_frame (recognizer a) (faces e) = []"
  shows "recognition_active (process_recognition_frame e a)"
    and "count_list (actions (process_recognition_frame e a)) TryUnlock
           = count_list (actions a) TryUnlock"
    and "user_manager (process_recognition_frame e a) = user_manager a"
    and "recognizer (process_recognition_frame e a) = recognizer a"
  using assms
  by (auto simp: process_recognition_frame_def Let_def act_fields actions_act)

lemma deliver_frames_Cons:
  "deliver_frames (e # es) a = deliver_frames es (process_recognition_frame e a)"
  by (simp add: deliver_frames_def)

lemma deliver_frames_unlock_le:
  "count_list (actions (deliver_frames es a)) TryUnlock \<le> count_list (actions a) TryUnlock + 1"
proof (induction es arbitrary: a)
  case Nil
  then show ?case by (simp add: deliver_frames_def)
next
  case (Cons e es)
  show ?case
  proof (cases "recognition_active a")
    case False
    then show ?thesis by (simp add: deliver_frames_inactive)
  next
    case True
    show ?thesis
    proof (cases "winfo_exists e \<and> process_frame (recognizer a) (faces e) \<noteq> []")
      case match: True
      then have "\<not> recognition_active (process_recognition_frame e a)"
        using recognition_frame_match(1) [OF True] by blast
      then have "deliver_frames (e # es) a = process_recognition_frame e a"
        by (simp add: deliver_frames_Cons deliver_frames_inactive)
      then show ?thesis using recognition_frame_match(3) [OF True] match by simp
    next
      case False
      then have nm: "\<not> winfo_exists e \<or> process_frame (recognizer a) (faces e) = []" by blast
      from Cons.IH [of "process_recognition_frame e a"] recognition_frame_no_match(2) [OF True nm]
      show ?thesis by (simp add: deliver_frames_Cons)
    qed
  qed
qed

text \<open>
  Claim C8. A frame that reaches the recognition callback while recognition is active and the
  window exists, and on which a user is recognized, starts exactly one unlock attempt and
  leaves recognition inactive, and every frame delivered after it leaves the state as it is.
  A frame delivered while recognition is inactive changes nothing (no photo, no unlock
  attempt, no status). So the frames of one activation start at most one unlock attempt.
\<close>

theorem recognition_match_unlocks_once:
  "(recognition_active a \<and> winfo_exists e \<and> process_frame (recognizer a) (faces e) \<noteq> [] \<longrightarrow>
      \<not> recognition_active (process_recognition_frame e a) \<and>
      count_list (actions (process_recognition_frame e a)) TryUnlock
        = count_list (actions a) TryUnlock + 1 \<and>
      deliver_frames es (process_recognition_frame e a) = process_recognition_frame e a) \<and>
   (\<not> recognition_active a \<longrightarrow> process_recognition_frame e a = a) \<and>
   count_list (actions (deliver_frames es a)) TryUnlock \<le> count_list (actions a) TryUnlock + 1"
  using recognition_frame_match [of a e] recognition_frame_inactive [of a e]
    deliver_frames_inactive [of "process_recognition_frame e a" es]
    deliver_frames_unlock_le [of es a]
  by blast

theorem recognition_match_unlocks_once_witness:
  "\<not> recognition_active
      (process_recognition_frame
         \<lparr>ask_string = None, ask_existing = False, ask_continue = False,
           faces = [Predicted 0 100], photo_stamp = ''s'', photo_ctime = 5, retention_clock = 6,
           winfo_exists = True, thread_alive = True, init_ok = True\<rparr>
         \<lparr>user_manager = \<lparr>base_dir = [(''alice'', [])], max_photos_per_user = 100,
                            photo_retention_days = 90, min_recent_photos_to_keep = 50\<rparr>,
           recognizer = \<lparr>model_exists = True, user_list = [''alice''],
                          confidence_threshold = 2000\<rparr>,
           registration_active = False, recognition_active = True,
           current_user_registration = None, is_recording = True,
           frame_callback = Some RecognitionFrame, actions = []\<rparr>) \<and>
   count_list (actions
      (process_recognition_frame
         \<lparr>ask_string = None, ask_existing = False, ask_continue = False,
           faces = [Predicted 0 100], photo_stamp = ''s'', photo_ctime = 5, retention_clock = 6,
           winfo_exists = True, thread_alive = True, init_ok = True\<rparr>
         \<lparr>user_manager = \<lparr>base_dir = [(''alice'', [])], max_photos_per_user = 100,
                            photo_retention_days = 90, min_recent_photos_to_keep = 50\<rparr>,
           recognizer = \<lparr>model_exists = True, user_list = [''alice''],
                          confidence_threshold = 2000\<rparr>,
           registration_active = False, recognition_active = True,
           current_user_registration = None, is_recording = True,
           frame_callback = Some RecognitionFrame, actions = []\<rparr>)) TryUnlock = 1"
proof -
  let ?e = "\<lparr>ask_string = None, ask_existing = False, ask_continue = False,
           faces = [Predicted 0 100], photo_stamp = ''s'', photo_ctime = 5, retention_clock = 6,
           winfo_exists = True, thread_alive = True, init_ok = True\<rparr>"
  let ?a = "\<lparr>user_manager = \<lparr>base_dir = [(''alice'', [])], max_photos_per_user = 100,
                            photo_retention_days = 90, min_recent_photos_to_keep = 50\<rparr>,
           recognizer = \<lparr>model_exists = True, user_list = [''alice''],
                          confidence_threshold = 2000\<rparr>,
           registration_active = False, recognition_active = True,
           current_user_registration = None, is_recording = True,
           frame_callback = Some RecognitionFrame, actions = []\<rparr>"
  have h: "recognition_active ?a \<and> winfo_exists ?e \<and>
           process_frame (recognizer ?a) (faces ?e) \<noteq> []"
    by (simp add: process_frame_def recognize_face_def py_index_def)
  have c: "count_list (actions ?a) TryUnlock = 0" by simp
  from recognition_match_unlocks_once [of ?a ?e "[]"] h c show ?thesis by simp
qed

section \<open>Registration\<close>



lemma finish_and_train_fields:
  "actions (finish_and_train a) =
     actions a @ [ShowMessage] @ (if is_recording a then [StopCamera] else []) @
       [UpdateStatus, UpdateStatus, TrainModel True, UpdateUserList (get_users (user_manager a))]"
  "registration_active (finish_and_train a) = registration_active a"
  "user_manager (finish_and_train a) = user_manager a"
  "current_user_registration (finish_and_train a) = None"
  by (simp_all add: finish_and_train_def Let_def actions_act act_fields train_model_fields
      stop_camera_fields)









lemma finish_and_train_base: "base_dir (user_manager (finish_and_train a)) = base_dir (user_manager a)"
  by (simp add: finish_and_train_fields)








end
